theory Spec2Isabelle
  imports Complex_Main
begin

section \<open>The layer graph assembled by keras\_transformer/transformer.py\<close>

text \<open>
  The module builds a symbolic computation graph out of layer objects of the host
  library. A layer object is created by a constructor call such as
  \<^verbatim>\<open>LayerNormalization(name=...)\<close>; calling the object on a tensor (or on a list of
  tensors) yields a new symbolic tensor that remembers the layer that produced it and
  the tensors it was produced from.

  The numeric behaviour of the layers is outside the module. What the module decides is
  which layer objects are created, with which name and configuration, in which order, and
  how their calls are wired. The embedding keeps exactly that:
  \<^item> a layer object is a record of its identity, its name and its configuration;
  \<^item> a symbolic tensor is the producing layer together with the list of input tensors;
  \<^item> the state threaded through every function is the list of the layer objects created
    so far, oldest first; a new object receives the length of that list as identity, so two
    constructor calls never yield the same object, whatever their arguments;
  \<^item> a Python exception is a value \<open>Inl e\<close>; the state at the point of the exception is
    not kept, since no function of the module catches an exception.

  The checks that the host library itself performs when a layer is called or a model is
  declared (shapes, the head count dividing the embedding width) are not part of the
  module and are not modelled: a layer call always yields its tensor. The integers of the
  module are Python integers, hence \<open>int\<close>. The dropout rate is only ever compared with
  zero and handed on to the dropout layer; it is taken as a real number.
\<close>

subsection \<open>Data\<close>

datatype py_error = IndexError

type_synonym matrix = "real list list"

text \<open>The three modes of \<^verbatim>\<open>TrigPosEmbedding\<close>; the module uses \<^verbatim>\<open>MODE_ADD\<close> only.\<close>

datatype pos_mode = MODE_EXPAND | MODE_ADD | MODE_CONCAT

text \<open>
  One constructor for each layer class the module instantiates, carrying the keyword
  arguments the module passes (the name is kept in the layer record).
  \<^verbatim>\<open>keras.layers.Input(shape=(None,), ...)\<close> carries its shape, a tuple whose entries are
  a dimension or \<^verbatim>\<open>None\<close>.
\<close>

datatype layer_config =
    InputLayer (the_shape: "int option list")
  | Embedding (the_input_dim: int) (the_output_dim: int) (the_weights: "matrix list option")
      (the_trainable: bool)
  | TrigPosEmbedding (the_mode: pos_mode)
  | MultiHeadAttention (the_head_num: int) (the_att_activation: string) (the_history_only: bool)
  | FeedForward (the_ff_units: int) (the_ff_activation: string)
  | LayerNormalization
  | Dropout (the_rate: real)
  | Add
  | Dense (the_units: int) (the_activation: string)

record layer =
  uid :: nat
  lname :: string
  config :: layer_config

datatype tensor = Tensor (producer: layer) (inbound: "tensor list")

text \<open>
  A layer is called either on one tensor or on a Python list of tensors; the module tests
  for the list with \<^verbatim>\<open>isinstance(input_layer, list)\<close>.
\<close>

datatype layer_input = Single tensor | Multi "tensor list"

type_synonym keras_state = "layer list"

type_synonym 'a build = "keras_state \<Rightarrow> py_error + ('a \<times> keras_state)"

record model =
  inputs :: "tensor list"
  outputs :: layer_input

text \<open>
  The arguments \<^verbatim>\<open>embed_weights\<close> of \<^verbatim>\<open>get_model\<close>: \<^verbatim>\<open>None\<close>, an object that is
  not a list (a bare weight matrix), or a list of weight matrices.
\<close>

datatype py_weights = NoWeights | BareWeights matrix | WeightList "matrix list"

subsection \<open>Sequencing, layer construction and layer calls\<close>

definition unitB :: "'a \<Rightarrow> 'a build" where
  "unitB x s = Inr (x, s)"

definition raiseB :: "py_error \<Rightarrow> 'a build" where
  "raiseB e s = Inl e"

definition bindB :: "'a build \<Rightarrow> ('a \<Rightarrow> 'b build) \<Rightarrow> 'b build" where
  "bindB m f s = (case m s of Inl e \<Rightarrow> Inl e | Inr (x, s') \<Rightarrow> f x s')"

text \<open>A constructor call: a fresh layer object, appended to the list of created objects.\<close>

definition new_layer :: "string \<Rightarrow> layer_config \<Rightarrow> layer build" where
  "new_layer nm cfg s =
     (let l = \<lparr>uid = length s, lname = nm, config = cfg\<rparr> in Inr (l, s @ [l]))"

text \<open>
  Calling a layer object: on a single tensor, or on the elements of a list. The tensor
  records its inputs as a list in both cases, so a call on the tensor \<open>x\<close> and a call on
  the one-element list \<open>[x]\<close> are recorded alike; the module never builds a one-element
  list.
\<close>

fun call :: "layer \<Rightarrow> layer_input \<Rightarrow> tensor" where
  "call l (Single x) = Tensor l [x]"
| "call l (Multi xs) = Tensor l xs"

text \<open>\<^verbatim>\<open>keras.layers.Input\<close> creates an input layer and returns its output tensor.\<close>

definition Input :: "int option list \<Rightarrow> string \<Rightarrow> tensor build" where
  "Input shp nm = bindB (new_layer nm (InputLayer shp)) (\<lambda>l. unitB (Tensor l []))"

subsection \<open>Formatting of \<^verbatim>\<open>%d\<close>\<close>

definition digit_char :: "nat \<Rightarrow> char" where
  "digit_char d = ''0123456789'' ! d"

function str_nat :: "nat \<Rightarrow> string" where
  "str_nat n = (if n < 10 then [digit_char n] else str_nat (n div 10) @ [digit_char (n mod 10)])"
  by pat_completeness auto
termination
  by (relation "measure (\<lambda>n. n)") auto

declare str_nat.simps [simp del]

definition fmt_d :: "int \<Rightarrow> string" where
  "fmt_d i = (if i < 0 then CHR ''-'' # str_nat (nat (- i)) else str_nat (nat i))"

text \<open>\<^verbatim>\<open>range(n)\<close> for a Python integer \<open>n\<close>: empty when \<open>n \<le> 0\<close>.\<close>

definition range_py :: "int \<Rightarrow> int list" where
  "range_py n = [0..n - 1]"

subsection \<open>The module\<close>

text \<open>
  \<^verbatim>\<open>_wrap_layer\<close> (the leading underscore of a private name is dropped throughout).
  The statements run in the order of the source: the transform, the normalization, the
  optional dropout, the selection of the residual input, the addition.
\<close>

definition wrap_layer ::
    "string \<Rightarrow> layer_input \<Rightarrow> (layer_input \<Rightarrow> tensor build) \<Rightarrow> real \<Rightarrow> tensor build" where
  "wrap_layer name input_layer build_func dropout_rate =
     bindB (build_func input_layer) (\<lambda>build_output.
     bindB (new_layer (name @ ''-Norm'') LayerNormalization) (\<lambda>norm.
     bindB (unitB (call norm (Single build_output))) (\<lambda>normal_layer.
     bindB (if dropout_rate > 0
            then bindB (new_layer (name @ ''-Dropout'') (Dropout dropout_rate))
                   (\<lambda>drop. unitB (call drop (Single normal_layer)))
            else unitB normal_layer) (\<lambda>dropout_layer.
     bindB (case input_layer of
              Multi xs \<Rightarrow> (case xs of [] \<Rightarrow> raiseB IndexError | x # _ \<Rightarrow> unitB x)
            | Single x \<Rightarrow> unitB x) (\<lambda>input_layer0.
     bindB (new_layer (name @ ''-Add'') Add) (\<lambda>add.
     unitB (call add (Multi [input_layer0, dropout_layer]))))))))"

definition attention_builder ::
    "string \<Rightarrow> int \<Rightarrow> string \<Rightarrow> bool \<Rightarrow> layer_input \<Rightarrow> tensor build" where
  "attention_builder name head_num activation history_only x =
     bindB (new_layer name (MultiHeadAttention head_num activation history_only))
       (\<lambda>l. unitB (call l x))"

definition feed_forward_builder ::
    "string \<Rightarrow> int \<Rightarrow> string \<Rightarrow> layer_input \<Rightarrow> tensor build" where
  "feed_forward_builder name hidden_dim activation x =
     bindB (new_layer name (FeedForward hidden_dim activation)) (\<lambda>l. unitB (call l x))"

definition get_encoder_component ::
    "string \<Rightarrow> tensor \<Rightarrow> int \<Rightarrow> int \<Rightarrow> string \<Rightarrow> real \<Rightarrow> tensor build" where
  "get_encoder_component name input_layer head_num hidden_dim activation dropout_rate =
     (let attention_name = name @ ''-MultiHeadSelfAttention'';
          feed_forward_name = name @ ''-FeedForward''
      in bindB (wrap_layer attention_name (Single input_layer)
                  (attention_builder attention_name head_num activation False)
                  dropout_rate) (\<lambda>attention_layer.
         bindB (wrap_layer feed_forward_name (Single attention_layer)
                  (feed_forward_builder feed_forward_name hidden_dim activation)
                  dropout_rate) (\<lambda>feed_forward_layer.
         unitB feed_forward_layer)))"

definition get_decoder_component ::
    "string \<Rightarrow> tensor \<Rightarrow> tensor \<Rightarrow> int \<Rightarrow> int \<Rightarrow> string \<Rightarrow> real \<Rightarrow> tensor build" where
  "get_decoder_component name input_layer encoded_layer head_num hidden_dim activation
       dropout_rate =
     (let self_attention_name = name @ ''-MultiHeadSelfAttention'';
          query_attention_name = name @ ''-MultiHeadQueryAttention'';
          feed_forward_name = name @ ''-FeedForward''
      in bindB (wrap_layer self_attention_name (Single input_layer)
                  (attention_builder self_attention_name head_num activation True)
                  dropout_rate) (\<lambda>self_attention_layer.
         bindB (wrap_layer query_attention_name
                  (Multi [self_attention_layer, encoded_layer, encoded_layer])
                  (attention_builder query_attention_name head_num activation False)
                  dropout_rate) (\<lambda>query_attention_layer.
         bindB (wrap_layer feed_forward_name (Single query_attention_layer)
                  (feed_forward_builder feed_forward_name hidden_dim activation)
                  dropout_rate) (\<lambda>feed_forward_layer.
         unitB feed_forward_layer))))"

text \<open>
  The \<^verbatim>\<open>for\<close> loop of \<^verbatim>\<open>get_encoders\<close> and \<^verbatim>\<open>get_decoders\<close>: the body is run for
  each index in turn on the rolling \<^verbatim>\<open>last_layer\<close>; an exception in the body leaves
  the loop.
\<close>

fun for_loop :: "int list \<Rightarrow> (int \<Rightarrow> tensor \<Rightarrow> tensor build) \<Rightarrow> tensor \<Rightarrow> tensor build" where
  "for_loop [] body last_layer = unitB last_layer"
| "for_loop (i # is) body last_layer = bindB (body i last_layer) (for_loop is body)"

definition get_encoders ::
    "int \<Rightarrow> tensor \<Rightarrow> int \<Rightarrow> int \<Rightarrow> string \<Rightarrow> real \<Rightarrow> tensor build" where
  "get_encoders encoder_num input_layer head_num hidden_dim activation dropout_rate =
     for_loop (range_py encoder_num)
       (\<lambda>i last_layer.
          get_encoder_component (''Encoder-'' @ fmt_d (i + 1)) last_layer head_num hidden_dim
            activation dropout_rate)
       input_layer"

definition get_decoders ::
    "int \<Rightarrow> tensor \<Rightarrow> tensor \<Rightarrow> int \<Rightarrow> int \<Rightarrow> string \<Rightarrow> real \<Rightarrow> tensor build" where
  "get_decoders decoder_num input_layer encoded_layer head_num hidden_dim activation
       dropout_rate =
     for_loop (range_py decoder_num)
       (\<lambda>i last_layer.
          get_decoder_component (''Decoder-'' @ fmt_d (i + 1)) last_layer encoded_layer
            head_num hidden_dim activation dropout_rate)
       input_layer"

text \<open>
  \<^verbatim>\<open>get_model\<close>. The first two statements normalise \<^verbatim>\<open>embed_weights\<close> and
  \<^verbatim>\<open>embed_trainable\<close>; they are kept as functions of their own so that the value that
  reaches the embedding constructor can be named.
\<close>

definition norm_embed_weights :: "py_weights \<Rightarrow> matrix list option" where
  "norm_embed_weights embed_weights =
     (case embed_weights of
        NoWeights \<Rightarrow> None
      | BareWeights w \<Rightarrow> Some [w]
      | WeightList ws \<Rightarrow> Some ws)"

definition norm_embed_trainable :: "matrix list option \<Rightarrow> bool option \<Rightarrow> bool" where
  "norm_embed_trainable embed_weights embed_trainable =
     (case embed_trainable of
        None \<Rightarrow> (embed_weights = None)
      | Some b \<Rightarrow> b)"

definition get_model ::
    "int \<Rightarrow> int \<Rightarrow> int \<Rightarrow> int \<Rightarrow> int \<Rightarrow> int \<Rightarrow> string \<Rightarrow> real \<Rightarrow> py_weights \<Rightarrow> bool option
       \<Rightarrow> model build" where
  "get_model token_num embed_dim encoder_num decoder_num head_num hidden_dim activation
       dropout_rate embed_weights embed_trainable =
     (let embed_weights1 = norm_embed_weights embed_weights;
          embed_trainable1 = norm_embed_trainable embed_weights1 embed_trainable
      in bindB (new_layer ''Token-Embedding''
                  (Embedding token_num embed_dim embed_weights1 embed_trainable1))
           (\<lambda>embed_layer.
         bindB (Input [None] ''Encoder-Input'') (\<lambda>encoder_input.
         bindB (new_layer ''Encoder-Embedding'' (TrigPosEmbedding MODE_ADD)) (\<lambda>encoder_pos.
         bindB (unitB (call encoder_pos (Single (call embed_layer (Single encoder_input)))))
           (\<lambda>encoder_embed.
         bindB (get_encoders encoder_num encoder_embed head_num hidden_dim activation
                  dropout_rate) (\<lambda>encoded_layer.
         bindB (Input [None] ''Decoder-Input'') (\<lambda>decoder_input.
         bindB (new_layer ''Decoder-Embedding'' (TrigPosEmbedding MODE_ADD)) (\<lambda>decoder_pos.
         bindB (unitB (call decoder_pos (Single (call embed_layer (Single decoder_input)))))
           (\<lambda>decoder_embed.
         bindB (get_decoders decoder_num decoder_embed encoded_layer head_num hidden_dim
                  activation dropout_rate) (\<lambda>decoded_layer.
         bindB (new_layer ''Output'' (Dense token_num ''softmax'')) (\<lambda>dense.
         bindB (unitB (call dense (Single decoded_layer))) (\<lambda>dense_layer.
         unitB \<lparr>inputs = [encoder_input, decoder_input],
                 outputs = Single dense_layer\<rparr>))))))))))))"

subsection \<open>Observations on a result\<close>

text \<open>
  The name and configuration of a layer object, without its identity; and the graph below
  a tensor with the identities erased: the name and kind of each node and its inputs, in
  order.
\<close>

definition layer_sig :: "layer \<Rightarrow> string \<times> layer_config" where
  "layer_sig l = (lname l, config l)"

datatype node = Node (node_name: string) (node_kind: layer_config) (node_inputs: "node list")

fun node_of :: "tensor \<Rightarrow> node" where
  "node_of (Tensor l ts) = Node (lname l) (config l) (map node_of ts)"

fun nodes_of :: "layer_input \<Rightarrow> node list" where
  "nodes_of (Single t) = [node_of t]"
| "nodes_of (Multi ts) = map node_of ts"

definition is_attention :: "layer \<Rightarrow> bool" where
  "is_attention l = (case config l of MultiHeadAttention _ _ _ \<Rightarrow> True | _ \<Rightarrow> False)"

definition is_embedding :: "layer \<Rightarrow> bool" where
  "is_embedding l = (case config l of Embedding _ _ _ _ \<Rightarrow> True | _ \<Rightarrow> False)"

text \<open>The layer objects created by a run that started in \<open>s\<close> and ended in \<open>s'\<close>.\<close>

definition created :: "keras_state \<Rightarrow> keras_state \<Rightarrow> layer list" where
  "created s s' = drop (length s) s'"

text \<open>
  The names and configurations of the layer objects that one residual-wrapped stage, one
  encoder block and one decoder block create, in the order of creation. They are used to
  state what a whole stack creates.
\<close>

definition stage_sigs :: "string \<Rightarrow> layer_config \<Rightarrow> real \<Rightarrow> (string \<times> layer_config) list" where
  "stage_sigs nm cfg r =
     [(nm, cfg), (nm @ ''-Norm'', LayerNormalization)]
     @ (if 0 < r then [(nm @ ''-Dropout'', Dropout r)] else [])
     @ [(nm @ ''-Add'', Add)]"

definition encoder_sigs ::
    "string \<Rightarrow> int \<Rightarrow> int \<Rightarrow> string \<Rightarrow> real \<Rightarrow> (string \<times> layer_config) list" where
  "encoder_sigs name h hdim a r =
     stage_sigs (name @ ''-MultiHeadSelfAttention'') (MultiHeadAttention h a False) r
     @ stage_sigs (name @ ''-FeedForward'') (FeedForward hdim a) r"

definition decoder_sigs ::
    "string \<Rightarrow> int \<Rightarrow> int \<Rightarrow> string \<Rightarrow> real \<Rightarrow> (string \<times> layer_config) list" where
  "decoder_sigs name h hdim a r =
     stage_sigs (name @ ''-MultiHeadSelfAttention'') (MultiHeadAttention h a True) r
     @ stage_sigs (name @ ''-MultiHeadQueryAttention'') (MultiHeadAttention h a False) r
     @ stage_sigs (name @ ''-FeedForward'') (FeedForward hdim a) r"

text \<open>The two tests on layer objects, read off the name and configuration alone.\<close>

definition sig_is_embedding :: "string \<times> layer_config \<Rightarrow> bool" where
  "sig_is_embedding p = (case snd p of Embedding _ _ _ _ \<Rightarrow> True | _ \<Rightarrow> False)"

definition sig_is_attention :: "string \<times> layer_config \<Rightarrow> bool" where
  "sig_is_attention p = (case snd p of MultiHeadAttention _ _ _ \<Rightarrow> True | _ \<Rightarrow> False)"

section \<open>Basic facts\<close>

lemma unitB_apply [simp]: "unitB x s = Inr (x, s)"
  by (simp add: unitB_def)

lemma bindB_unitB [simp]: "bindB (unitB x) f = f x"
  by (rule ext) (simp add: bindB_def)

lemma bindB_Inr: "m s = Inr (x, s') \<Longrightarrow> bindB m f s = f x s'"
  by (simp add: bindB_def)

lemma bindB_assoc: "bindB (bindB m f) g = bindB m (\<lambda>x. bindB (f x) g)"
  by (rule ext) (simp add: bindB_def split: sum.splits prod.splits)

lemmas build_simps = wrap_layer_def attention_builder_def feed_forward_builder_def
  bindB_def new_layer_def raiseB_def Let_def

lemma for_loop_snoc_fun:
  "for_loop (xs @ [i]) body = (\<lambda>x. bindB (for_loop xs body x) (body i))"
proof (induction xs)
  case Nil
  show ?case by (rule ext)+ (simp add: bindB_def split: sum.splits)
next
  case (Cons j xs)
  show ?case by (rule ext)+ (simp add: Cons.IH bindB_assoc)
qed

lemma for_loop_snoc:
  "for_loop (xs @ [i]) body x = bindB (for_loop xs body x) (body i)"
  by (simp add: for_loop_snoc_fun)

lemma range_py_nonpos: "n \<le> 0 \<Longrightarrow> range_py n = []"
  by (simp add: range_py_def)

lemma range_py_Suc: "range_py (int (Suc k)) = range_py (int k) @ [int k]"
  by (simp add: range_py_def upto_rec2)

lemma upto_1_Suc: "[1..int (Suc k)] = [1..int k] @ [int k + 1]"
  by (simp add: upto_rec2 add.commute)

lemma range_py_add1: "0 \<le> n \<Longrightarrow> range_py (n + 1) = range_py n @ [n]"
  by (simp add: range_py_def upto_rec2)

lemma created_append [simp]: "created s (s @ cr) = cr"
  by (simp add: created_def)

lemma lname_layer_sig: "map lname cr = map fst (map layer_sig cr)"
  by (simp add: layer_sig_def comp_def)

section \<open>The residual wrapper\<close>

text \<open>
  Claim C2. Whenever the transform returns and the input is a single tensor \<open>x\<close> or a
  list whose first element is \<open>x\<close>, \<^verbatim>\<open>_wrap_layer\<close> returns the output of an
  \<open>Add\<close> layer called on exactly two tensors: \<open>x\<close> itself, and the normalized output of
  the transform, which is passed through a \<open>Dropout\<close> layer when \<open>dropout_rate > 0\<close>
  and handed over unchanged otherwise (in particular when \<open>dropout_rate = 0\<close>, where no
  \<open>Dropout\<close> layer is created at all).
\<close>

theorem wrap_layer_residual:
  assumes "build_func input_layer s = Inr (build_output, s1)"
    and "input_layer = Single x \<or> input_layer = Multi (x # rest)"
  shows "wrap_layer name input_layer build_func dropout_rate s =
     (let norm = \<lparr>uid = length s1, lname = name @ ''-Norm'', config = LayerNormalization\<rparr>;
          drop = \<lparr>uid = length s1 + 1, lname = name @ ''-Dropout'',
                   config = Dropout dropout_rate\<rparr>;
          add = \<lparr>uid = length s1 + (if 0 < dropout_rate then 2 else 1),
                  lname = name @ ''-Add'', config = Add\<rparr>;
          normal_layer = Tensor norm [build_output]
      in if 0 < dropout_rate
         then Inr (Tensor add [x, Tensor drop [normal_layer]], s1 @ [norm, drop, add])
         else Inr (Tensor add [x, normal_layer], s1 @ [norm, add]))"
  using assms by (auto simp: build_simps)

theorem wrap_layer_residual_witness:
  "wrap_layer ''Q''
     (Multi [Tensor \<lparr>uid = 0, lname = ''q'', config = InputLayer [None]\<rparr> [],
             Tensor \<lparr>uid = 1, lname = ''k'', config = InputLayer [None]\<rparr> [],
             Tensor \<lparr>uid = 1, lname = ''k'', config = InputLayer [None]\<rparr> []])
     (attention_builder ''Q'' 4 ''relu'' False) (1 / 10)
     [\<lparr>uid = 0, lname = ''q'', config = InputLayer [None]\<rparr>,
      \<lparr>uid = 1, lname = ''k'', config = InputLayer [None]\<rparr>]
   = Inr (Tensor \<lparr>uid = 5, lname = ''Q-Add'', config = Add\<rparr>
            [Tensor \<lparr>uid = 0, lname = ''q'', config = InputLayer [None]\<rparr> [],
             Tensor \<lparr>uid = 4, lname = ''Q-Dropout'', config = Dropout (1 / 10)\<rparr>
               [Tensor \<lparr>uid = 3, lname = ''Q-Norm'', config = LayerNormalization\<rparr>
                  [Tensor \<lparr>uid = 2, lname = ''Q'',
                            config = MultiHeadAttention 4 ''relu'' False\<rparr>
                     [Tensor \<lparr>uid = 0, lname = ''q'', config = InputLayer [None]\<rparr> [],
                      Tensor \<lparr>uid = 1, lname = ''k'', config = InputLayer [None]\<rparr> [],
                      Tensor \<lparr>uid = 1, lname = ''k'', config = InputLayer [None]\<rparr> []]]]],
          [\<lparr>uid = 0, lname = ''q'', config = InputLayer [None]\<rparr>,
           \<lparr>uid = 1, lname = ''k'', config = InputLayer [None]\<rparr>,
           \<lparr>uid = 2, lname = ''Q'', config = MultiHeadAttention 4 ''relu'' False\<rparr>,
           \<lparr>uid = 3, lname = ''Q-Norm'', config = LayerNormalization\<rparr>,
           \<lparr>uid = 4, lname = ''Q-Dropout'', config = Dropout (1 / 10)\<rparr>,
           \<lparr>uid = 5, lname = ''Q-Add'', config = Add\<rparr>]) \<and>
   wrap_layer ''F''
     (Single (Tensor \<lparr>uid = 0, lname = ''q'', config = InputLayer [None]\<rparr> []))
     (feed_forward_builder ''F'' 32 ''relu'') 0
     [\<lparr>uid = 0, lname = ''q'', config = InputLayer [None]\<rparr>]
   = Inr (Tensor \<lparr>uid = 3, lname = ''F-Add'', config = Add\<rparr>
            [Tensor \<lparr>uid = 0, lname = ''q'', config = InputLayer [None]\<rparr> [],
             Tensor \<lparr>uid = 2, lname = ''F-Norm'', config = LayerNormalization\<rparr>
               [Tensor \<lparr>uid = 1, lname = ''F'', config = FeedForward 32 ''relu''\<rparr>
                  [Tensor \<lparr>uid = 0, lname = ''q'', config = InputLayer [None]\<rparr> []]]],
          [\<lparr>uid = 0, lname = ''q'', config = InputLayer [None]\<rparr>,
           \<lparr>uid = 1, lname = ''F'', config = FeedForward 32 ''relu''\<rparr>,
           \<lparr>uid = 2, lname = ''F-Norm'', config = LayerNormalization\<rparr>,
           \<lparr>uid = 3, lname = ''F-Add'', config = Add\<rparr>])"
  using wrap_layer_residual
    [where build_func = "attention_builder ''Q'' 4 ''relu'' False"
       and input_layer = "Multi [Tensor \<lparr>uid = 0, lname = ''q'', config = InputLayer [None]\<rparr> [],
             Tensor \<lparr>uid = 1, lname = ''k'', config = InputLayer [None]\<rparr> [],
             Tensor \<lparr>uid = 1, lname = ''k'', config = InputLayer [None]\<rparr> []]"
       and s = "[\<lparr>uid = 0, lname = ''q'', config = InputLayer [None]\<rparr>,
                 \<lparr>uid = 1, lname = ''k'', config = InputLayer [None]\<rparr>]"
       and name = "''Q''" and dropout_rate = "1 / 10"]
    wrap_layer_residual
    [where build_func = "feed_forward_builder ''F'' 32 ''relu''"
       and input_layer = "Single (Tensor \<lparr>uid = 0, lname = ''q'', config = InputLayer [None]\<rparr> [])"
       and s = "[\<lparr>uid = 0, lname = ''q'', config = InputLayer [None]\<rparr>]"
       and name = "''F''" and dropout_rate = 0]
  by (simp add: attention_builder_def feed_forward_builder_def bindB_def new_layer_def Let_def)

text \<open>
  For an empty list there is no first element: the transform, the normalization and the
  dropout run, and \<^verbatim>\<open>input_layer[0]\<close> then raises.
\<close>

lemma wrap_layer_empty_list:
  assumes "build_func (Multi []) s = Inr (build_output, s1)"
  shows "wrap_layer name (Multi []) build_func dropout_rate s = Inl IndexError"
  using assms by (auto simp: build_simps)

section \<open>The decoder block\<close>

text \<open>
  Claim C1. A decoder block always returns, and its result is the following graph, where
  \<open>n\<close> is the number of layer objects that existed before the call. The first stage is
  the residual-wrapped masked self-attention on the block's input; its output
  \<open>self_out\<close> is what \<^verbatim>\<open>_wrap_layer\<close> returned for that stage. The cross-attention
  layer is then called on the ordered list \<open>[self_out, encoded_layer, encoded_layer]\<close>:
  the query is the output of the self-attention stage (not \<open>input_layer\<close>), and the key
  and the value are both the encoder output tensor as it was passed in.
\<close>

theorem decoder_cross_attention_wiring:
  "let n = length s;
       d = (if 0 < dropout_rate then 1 else 0);
       dropped = (\<lambda>u nm t. if 0 < dropout_rate
                    then Tensor \<lparr>uid = u, lname = nm @ ''-Dropout'',
                                  config = Dropout dropout_rate\<rparr> [t]
                    else t);
       self_name = name @ ''-MultiHeadSelfAttention'';
       query_name = name @ ''-MultiHeadQueryAttention'';
       ff_name = name @ ''-FeedForward'';
       self_att = Tensor \<lparr>uid = n, lname = self_name,
                           config = MultiHeadAttention head_num activation True\<rparr>
                    [input_layer];
       self_out = Tensor \<lparr>uid = n + 2 + d, lname = self_name @ ''-Add'', config = Add\<rparr>
                    [input_layer,
                     dropped (n + 2) self_name
                       (Tensor \<lparr>uid = n + 1, lname = self_name @ ''-Norm'',
                                 config = LayerNormalization\<rparr> [self_att])];
       query_att = Tensor \<lparr>uid = n + 3 + d, lname = query_name,
                            config = MultiHeadAttention head_num activation False\<rparr>
                     [self_out, encoded_layer, encoded_layer];
       query_out = Tensor \<lparr>uid = n + 5 + 2 * d, lname = query_name @ ''-Add'', config = Add\<rparr>
                     [self_out,
                      dropped (n + 5 + d) query_name
                        (Tensor \<lparr>uid = n + 4 + d, lname = query_name @ ''-Norm'',
                                  config = LayerNormalization\<rparr> [query_att])];
       ff = Tensor \<lparr>uid = n + 6 + 2 * d, lname = ff_name,
                     config = FeedForward hidden_dim activation\<rparr> [query_out];
       ff_out = Tensor \<lparr>uid = n + 8 + 3 * d, lname = ff_name @ ''-Add'', config = Add\<rparr>
                  [query_out,
                   dropped (n + 8 + 2 * d) ff_name
                     (Tensor \<lparr>uid = n + 7 + 2 * d, lname = ff_name @ ''-Norm'',
                               config = LayerNormalization\<rparr> [ff])]
   in \<exists>s1 s2 s'.
        wrap_layer self_name (Single input_layer)
          (attention_builder self_name head_num activation True) dropout_rate s
          = Inr (self_out, s1) \<and>
        attention_builder query_name head_num activation False
          (Multi [self_out, encoded_layer, encoded_layer]) s1 = Inr (query_att, s2) \<and>
        get_decoder_component name input_layer encoded_layer head_num hidden_dim activation
          dropout_rate s = Inr (ff_out, s')"
  by (simp add: get_decoder_component_def build_simps)

section \<open>The stacks\<close>

text \<open>
  Claim C9. With a depth of zero, \<^verbatim>\<open>get_encoders\<close> and \<^verbatim>\<open>get_decoders\<close> return
  the input tensor itself, and the list of created layer objects is the one they started
  with: nothing is created.
\<close>

theorem stack_depth_zero_identity:
  "get_encoders 0 input_layer head_num hidden_dim activation dropout_rate s
     = Inr (input_layer, s) \<and>
   get_decoders 0 input_layer encoded_layer head_num hidden_dim activation dropout_rate s
     = Inr (input_layer, s)"
  by (simp add: get_encoders_def get_decoders_def range_py_nonpos)

subsection \<open>What a block and a stack create\<close>

lemma get_encoder_component_created:
  "\<exists>out cr. get_encoder_component name x h hdim a r s = Inr (out, s @ cr) \<and>
     map layer_sig cr = encoder_sigs name h hdim a r"
  by (simp add: get_encoder_component_def build_simps encoder_sigs_def stage_sigs_def
      layer_sig_def)

lemma get_decoder_component_created:
  "\<exists>out cr. get_decoder_component name x enc h hdim a r s = Inr (out, s @ cr) \<and>
     map layer_sig cr = decoder_sigs name h hdim a r"
  by (simp add: get_decoder_component_def build_simps decoder_sigs_def stage_sigs_def
      layer_sig_def)

lemma for_loop_created:
  assumes body: "\<And>i x s. \<exists>out cr. body i x s = Inr (out, s @ cr) \<and> map layer_sig cr = sigs i"
  shows "\<exists>out cr. for_loop js body x s = Inr (out, s @ cr) \<and>
           map layer_sig cr = concat (map sigs js)"
proof (induction js arbitrary: x s)
  case Nil
  show ?case by simp
next
  case (Cons j js)
  from body obtain y c1 where 1: "body j x s = Inr (y, s @ c1)" "map layer_sig c1 = sigs j"
    by blast
  from Cons.IH obtain out c2 where
    2: "for_loop js body y (s @ c1) = Inr (out, (s @ c1) @ c2)"
       "map layer_sig c2 = concat (map sigs js)"
    by blast
  have "for_loop (j # js) body x s = Inr (out, s @ (c1 @ c2))"
    using 1 2 by (simp add: bindB_def)
  moreover have "map layer_sig (c1 @ c2) = concat (map sigs (j # js))"
    using 1 2 by simp
  ultimately show ?case by blast
qed

lemma map_range_py: "map (\<lambda>i. f (i + 1)) (range_py n) = map f [1..n]"
proof (cases "n \<le> 0")
  case True
  then show ?thesis by (simp add: range_py_def)
next
  case False
  then obtain k where n: "n = int k" using nonneg_int_cases[of n] by auto
  show ?thesis unfolding n
  proof (induction k)
    case 0
    show ?case by (simp add: range_py_def)
  next
    case (Suc k)
    then show ?case by (simp only: range_py_Suc upto_1_Suc map_append list.map)
  qed
qed

lemma get_encoders_created:
  "\<exists>out cr. get_encoders n x h hdim a r s = Inr (out, s @ cr) \<and>
     map layer_sig cr =
       concat (map (\<lambda>i. encoder_sigs (''Encoder-'' @ fmt_d i) h hdim a r) [1..n])"
proof -
  have "\<exists>out cr. get_encoders n x h hdim a r s = Inr (out, s @ cr) \<and>
     map layer_sig cr =
       concat (map (\<lambda>i. encoder_sigs (''Encoder-'' @ fmt_d (i + 1)) h hdim a r) (range_py n))"
    unfolding get_encoders_def
    by (rule for_loop_created) (rule get_encoder_component_created)
  then show ?thesis
    by (simp only: map_range_py [where f = "\<lambda>i. encoder_sigs (''Encoder-'' @ fmt_d i) h hdim a r"])
qed

lemma get_decoders_created:
  "\<exists>out cr. get_decoders n x enc h hdim a r s = Inr (out, s @ cr) \<and>
     map layer_sig cr =
       concat (map (\<lambda>i. decoder_sigs (''Decoder-'' @ fmt_d i) h hdim a r) [1..n])"
proof -
  have "\<exists>out cr. get_decoders n x enc h hdim a r s = Inr (out, s @ cr) \<and>
     map layer_sig cr =
       concat (map (\<lambda>i. decoder_sigs (''Decoder-'' @ fmt_d (i + 1)) h hdim a r) (range_py n))"
    unfolding get_decoders_def
    by (rule for_loop_created) (rule get_decoder_component_created)
  then show ?thesis
    by (simp only: map_range_py [where f = "\<lambda>i. decoder_sigs (''Decoder-'' @ fmt_d i) h hdim a r"])
qed

text \<open>The decimal rendering used for the block index.\<close>

lemma fmt_d_examples: "fmt_d 3 = ''3''" "fmt_d 12 = ''12''" "fmt_d 105 = ''105''" "fmt_d (-7) = ''-7''"
  by (simp_all add: fmt_d_def str_nat.simps digit_char_def)

text \<open>
  Claim C5. For a depth \<open>N \<ge> 0\<close>: depth \<open>0\<close> returns the input; depth \<open>N + 1\<close> is
  depth \<open>N\<close> followed by one more application of the block function, named
  \<^verbatim>\<open>Encoder-\<close>\<open>(N + 1)\<close> (resp. \<^verbatim>\<open>Decoder-\<close>\<open>(N + 1)\<close>), on the output of depth \<open>N\<close>, whose
  result is returned. So the block function is applied exactly \<open>N\<close> times, the output of
  block \<open>i\<close> being the input of block \<open>i + 1\<close>, with indices \<open>1, \<dots>, N\<close>. The stack
  always returns, and the layers it creates carry, block after block, the block name
  followed by the stage kind (and by \<^verbatim>\<open>-Norm\<close>, \<^verbatim>\<open>-Dropout\<close>, \<^verbatim>\<open>-Add\<close> for the
  layers of the residual wrapper).
\<close>

theorem stacks_thread_blocks:
  assumes "0 \<le> N"
  shows
   "get_encoders 0 x h hdim a r s = Inr (x, s) \<and>
    get_encoders (N + 1) x h hdim a r s =
      bindB (get_encoders N x h hdim a r)
        (\<lambda>last_layer. get_encoder_component (''Encoder-'' @ fmt_d (N + 1)) last_layer
                         h hdim a r) s \<and>
    get_decoders 0 x enc h hdim a r s = Inr (x, s) \<and>
    get_decoders (N + 1) x enc h hdim a r s =
      bindB (get_decoders N x enc h hdim a r)
        (\<lambda>last_layer. get_decoder_component (''Decoder-'' @ fmt_d (N + 1)) last_layer enc
                         h hdim a r) s \<and>
    (let stage = (\<lambda>nm. [nm, nm @ ''-Norm'']
                         @ (if 0 < r then [nm @ ''-Dropout''] else [])
                         @ [nm @ ''-Add''])
     in (\<exists>out s'. get_encoders N x h hdim a r s = Inr (out, s') \<and>
           map lname (created s s') =
             concat (map (\<lambda>i. stage (''Encoder-'' @ fmt_d i @ ''-MultiHeadSelfAttention'')
                               @ stage (''Encoder-'' @ fmt_d i @ ''-FeedForward''))
                       [1..N])) \<and>
        (\<exists>out s'. get_decoders N x enc h hdim a r s = Inr (out, s') \<and>
           map lname (created s s') =
             concat (map (\<lambda>i. stage (''Decoder-'' @ fmt_d i @ ''-MultiHeadSelfAttention'')
                               @ stage (''Decoder-'' @ fmt_d i @ ''-MultiHeadQueryAttention'')
                               @ stage (''Decoder-'' @ fmt_d i @ ''-FeedForward''))
                       [1..N])))"
proof -
  have e0: "get_encoders 0 x h hdim a r s = Inr (x, s)"
    by (simp add: get_encoders_def range_py_nonpos)
  have d0: "get_decoders 0 x enc h hdim a r s = Inr (x, s)"
    by (simp add: get_decoders_def range_py_nonpos)
  have eS: "get_encoders (N + 1) x h hdim a r s =
      bindB (get_encoders N x h hdim a r)
        (\<lambda>last_layer. get_encoder_component (''Encoder-'' @ fmt_d (N + 1)) last_layer
                         h hdim a r) s"
    using assms by (simp add: get_encoders_def range_py_add1 for_loop_snoc)
  have dS: "get_decoders (N + 1) x enc h hdim a r s =
      bindB (get_decoders N x enc h hdim a r)
        (\<lambda>last_layer. get_decoder_component (''Decoder-'' @ fmt_d (N + 1)) last_layer enc
                         h hdim a r) s"
    using assms by (simp add: get_decoders_def range_py_add1 for_loop_snoc)
  obtain eout ecr where e: "get_encoders N x h hdim a r s = Inr (eout, s @ ecr)"
      "map layer_sig ecr =
         concat (map (\<lambda>i. encoder_sigs (''Encoder-'' @ fmt_d i) h hdim a r) [1..N])"
    using get_encoders_created by blast
  obtain dout dcr where d: "get_decoders N x enc h hdim a r s = Inr (dout, s @ dcr)"
      "map layer_sig dcr =
         concat (map (\<lambda>i. decoder_sigs (''Decoder-'' @ fmt_d i) h hdim a r) [1..N])"
    using get_decoders_created by blast
  have en: "map lname ecr =
      concat (map (\<lambda>i.
         ([''Encoder-'' @ fmt_d i @ ''-MultiHeadSelfAttention'',
           (''Encoder-'' @ fmt_d i @ ''-MultiHeadSelfAttention'') @ ''-Norm'']
          @ (if 0 < r then [(''Encoder-'' @ fmt_d i @ ''-MultiHeadSelfAttention'') @ ''-Dropout'']
             else [])
          @ [(''Encoder-'' @ fmt_d i @ ''-MultiHeadSelfAttention'') @ ''-Add''])
         @ ([''Encoder-'' @ fmt_d i @ ''-FeedForward'',
           (''Encoder-'' @ fmt_d i @ ''-FeedForward'') @ ''-Norm'']
          @ (if 0 < r then [(''Encoder-'' @ fmt_d i @ ''-FeedForward'') @ ''-Dropout'']
             else [])
          @ [(''Encoder-'' @ fmt_d i @ ''-FeedForward'') @ ''-Add''])) [1..N])"
    unfolding lname_layer_sig e(2)
    by (cases "0 < r") (simp_all add: map_concat comp_def encoder_sigs_def stage_sigs_def)
  have dn: "map lname dcr =
      concat (map (\<lambda>i.
         ([''Decoder-'' @ fmt_d i @ ''-MultiHeadSelfAttention'',
           (''Decoder-'' @ fmt_d i @ ''-MultiHeadSelfAttention'') @ ''-Norm'']
          @ (if 0 < r then [(''Decoder-'' @ fmt_d i @ ''-MultiHeadSelfAttention'') @ ''-Dropout'']
             else [])
          @ [(''Decoder-'' @ fmt_d i @ ''-MultiHeadSelfAttention'') @ ''-Add''])
         @ ([''Decoder-'' @ fmt_d i @ ''-MultiHeadQueryAttention'',
           (''Decoder-'' @ fmt_d i @ ''-MultiHeadQueryAttention'') @ ''-Norm'']
          @ (if 0 < r then [(''Decoder-'' @ fmt_d i @ ''-MultiHeadQueryAttention'') @ ''-Dropout'']
             else [])
          @ [(''Decoder-'' @ fmt_d i @ ''-MultiHeadQueryAttention'') @ ''-Add''])
         @ ([''Decoder-'' @ fmt_d i @ ''-FeedForward'',
           (''Decoder-'' @ fmt_d i @ ''-FeedForward'') @ ''-Norm'']
          @ (if 0 < r then [(''Decoder-'' @ fmt_d i @ ''-FeedForward'') @ ''-Dropout'']
             else [])
          @ [(''Decoder-'' @ fmt_d i @ ''-FeedForward'') @ ''-Add''])) [1..N])"
    unfolding lname_layer_sig d(2)
    by (cases "0 < r") (simp_all add: map_concat comp_def decoder_sigs_def stage_sigs_def)
  show ?thesis
    unfolding Let_def
    apply (intro conjI)
         apply (rule e0)
        apply (rule eS)
       apply (rule d0)
      apply (rule dS)
     apply (rule exI [of _ eout], rule exI [of _ "s @ ecr"])
     apply (simp only: e(1) created_append en, simp)
    apply (rule exI [of _ dout], rule exI [of _ "s @ dcr"])
    apply (simp only: d(1) created_append dn, simp)
    done
qed

theorem stacks_thread_blocks_witness:
  "(0::int) \<le> 3 \<and>
   (\<exists>out s'. get_encoders 3 (Tensor \<lparr>uid = 0, lname = ''x'', config = InputLayer [None]\<rparr> [])
                4 32 ''relu'' 0 [\<lparr>uid = 0, lname = ''x'', config = InputLayer [None]\<rparr>]
              = Inr (out, s') \<and>
      map lname (created [\<lparr>uid = 0, lname = ''x'', config = InputLayer [None]\<rparr>] s') =
        [''Encoder-1-MultiHeadSelfAttention'', ''Encoder-1-MultiHeadSelfAttention-Norm'',
         ''Encoder-1-MultiHeadSelfAttention-Add'',
         ''Encoder-1-FeedForward'', ''Encoder-1-FeedForward-Norm'', ''Encoder-1-FeedForward-Add'',
         ''Encoder-2-MultiHeadSelfAttention'', ''Encoder-2-MultiHeadSelfAttention-Norm'',
         ''Encoder-2-MultiHeadSelfAttention-Add'',
         ''Encoder-2-FeedForward'', ''Encoder-2-FeedForward-Norm'', ''Encoder-2-FeedForward-Add'',
         ''Encoder-3-MultiHeadSelfAttention'', ''Encoder-3-MultiHeadSelfAttention-Norm'',
         ''Encoder-3-MultiHeadSelfAttention-Add'',
         ''Encoder-3-FeedForward'', ''Encoder-3-FeedForward-Norm'', ''Encoder-3-FeedForward-Add''])"
  using stacks_thread_blocks
    [of 3 "Tensor \<lparr>uid = 0, lname = ''x'', config = InputLayer [None]\<rparr> []" 4 32 "''relu''" 0
        "[\<lparr>uid = 0, lname = ''x'', config = InputLayer [None]\<rparr>]"]
  by (simp add: Let_def fmt_d_def str_nat.simps digit_char_def upto_rec1)

section \<open>The assembled model\<close>

text \<open>
  A run of \<^verbatim>\<open>get_model\<close>, statement by statement: the layer objects it creates, the
  two runs of the stacks inside it, and the model it returns.
\<close>

lemma get_model_run:
  fixes tn ed en dn h hdim :: int and a :: string and r :: real
    and ew :: py_weights and et :: "bool option" and s :: keras_state
  defines "emb \<equiv> \<lparr>uid = length s, lname = ''Token-Embedding'',
                     config = Embedding tn ed (norm_embed_weights ew)
                                (norm_embed_trainable (norm_embed_weights ew) et)\<rparr>"
    and "ein \<equiv> \<lparr>uid = length s + 1, lname = ''Encoder-Input'', config = InputLayer [None]\<rparr>"
    and "epos \<equiv> \<lparr>uid = length s + 2, lname = ''Encoder-Embedding'',
                    config = TrigPosEmbedding MODE_ADD\<rparr>"
    and "din \<equiv> (\<lambda>k. \<lparr>uid = length s + 3 + k, lname = ''Decoder-Input'',
                        config = InputLayer [None]\<rparr>)"
    and "dpos \<equiv> (\<lambda>k. \<lparr>uid = length s + 4 + k, lname = ''Decoder-Embedding'',
                         config = TrigPosEmbedding MODE_ADD\<rparr>)"
    and "dense \<equiv> (\<lambda>k. \<lparr>uid = length s + 5 + k, lname = ''Output'',
                          config = Dense tn ''softmax''\<rparr>)"
  obtains encoded cr1 decoded cr2 where
    "get_encoders en (Tensor epos [Tensor emb [Tensor ein []]]) h hdim a r (s @ [emb, ein, epos])
       = Inr (encoded, s @ [emb, ein, epos] @ cr1)"
    "map layer_sig cr1 =
       concat (map (\<lambda>i. encoder_sigs (''Encoder-'' @ fmt_d i) h hdim a r) [1..en])"
    "get_decoders dn (Tensor (dpos (length cr1)) [Tensor emb [Tensor (din (length cr1)) []]])
       encoded h hdim a r (s @ [emb, ein, epos] @ cr1 @ [din (length cr1), dpos (length cr1)])
       = Inr (decoded, s @ [emb, ein, epos] @ cr1 @ [din (length cr1), dpos (length cr1)] @ cr2)"
    "map layer_sig cr2 =
       concat (map (\<lambda>i. decoder_sigs (''Decoder-'' @ fmt_d i) h hdim a r) [1..dn])"
    "get_model tn ed en dn h hdim a r ew et s =
       Inr (\<lparr>inputs = [Tensor ein [], Tensor (din (length cr1)) []],
             outputs = Single (Tensor (dense (length cr1 + length cr2)) [decoded])\<rparr>,
            s @ [emb, ein, epos] @ cr1 @ [din (length cr1), dpos (length cr1)] @ cr2
              @ [dense (length cr1 + length cr2)])"
proof -
  obtain encoded cr1 where
    1: "get_encoders en (Tensor epos [Tensor emb [Tensor ein []]]) h hdim a r
          (s @ [emb, ein, epos]) = Inr (encoded, (s @ [emb, ein, epos]) @ cr1)"
    and 2: "map layer_sig cr1 =
       concat (map (\<lambda>i. encoder_sigs (''Encoder-'' @ fmt_d i) h hdim a r) [1..en])"
    using get_encoders_created by blast
  obtain decoded cr2 where
    3: "get_decoders dn (Tensor (dpos (length cr1)) [Tensor emb [Tensor (din (length cr1)) []]])
       encoded h hdim a r (s @ [emb, ein, epos] @ cr1 @ [din (length cr1), dpos (length cr1)])
       = Inr (decoded, (s @ [emb, ein, epos] @ cr1 @ [din (length cr1), dpos (length cr1)]) @ cr2)"
    and 4: "map layer_sig cr2 =
       concat (map (\<lambda>i. decoder_sigs (''Decoder-'' @ fmt_d i) h hdim a r) [1..dn])"
    using get_decoders_created by blast
  let ?s1 = "s @ [emb, ein, epos]"
  let ?s2 = "(s @ [emb, ein, epos]) @ cr1"
  let ?s3 = "s @ [emb, ein, epos] @ cr1 @ [din (length cr1), dpos (length cr1)]"
  let ?s4 = "(s @ [emb, ein, epos] @ cr1 @ [din (length cr1), dpos (length cr1)]) @ cr2"
  have a: "new_layer ''Token-Embedding''
             (Embedding tn ed (norm_embed_weights ew)
                (norm_embed_trainable (norm_embed_weights ew) et)) s = Inr (emb, s @ [emb])"
    by (simp add: new_layer_def emb_def Let_def)
  have b: "Input [None] ''Encoder-Input'' (s @ [emb]) = Inr (Tensor ein [], s @ [emb, ein])"
    by (simp add: Input_def bindB_def new_layer_def ein_def Let_def)
  have c: "new_layer ''Encoder-Embedding'' (TrigPosEmbedding MODE_ADD) (s @ [emb, ein])
             = Inr (epos, ?s1)"
    by (simp add: new_layer_def epos_def Let_def)
  have d: "Input [None] ''Decoder-Input'' ?s2
             = Inr (Tensor (din (length cr1)) [], ?s2 @ [din (length cr1)])"
    by (simp add: Input_def bindB_def new_layer_def din_def Let_def)
  have e: "new_layer ''Decoder-Embedding'' (TrigPosEmbedding MODE_ADD)
             (?s2 @ [din (length cr1)]) = Inr (dpos (length cr1), ?s3)"
    by (simp add: new_layer_def dpos_def Let_def)
  have f: "new_layer ''Output'' (Dense tn ''softmax'') ?s4
             = Inr (dense (length cr1 + length cr2), ?s4 @ [dense (length cr1 + length cr2)])"
    by (simp add: new_layer_def dense_def Let_def)
  have a': "\<And>k. bindB (new_layer ''Token-Embedding''
             (Embedding tn ed (norm_embed_weights ew)
                (norm_embed_trainable (norm_embed_weights ew) et))) k s = k emb (s @ [emb])"
    by (simp add: bindB_def a)
  have b': "\<And>k. bindB (Input [None] ''Encoder-Input'') k (s @ [emb])
              = k (Tensor ein []) (s @ [emb, ein])"
    by (simp only: bindB_def b sum.case prod.case)
  have c': "\<And>k. bindB (new_layer ''Encoder-Embedding'' (TrigPosEmbedding MODE_ADD)) k
              (s @ [emb, ein]) = k epos ?s1"
    by (simp only: bindB_def c sum.case prod.case)
  have enc': "\<And>k. bindB (get_encoders en (Tensor epos [Tensor emb [Tensor ein []]]) h hdim a r)
              k ?s1 = k encoded ?s2"
    by (simp only: bindB_def 1 sum.case prod.case)
  have d': "\<And>k. bindB (Input [None] ''Decoder-Input'') k ?s2
              = k (Tensor (din (length cr1)) []) (?s2 @ [din (length cr1)])"
    by (simp only: bindB_def d sum.case prod.case)
  have e': "\<And>k. bindB (new_layer ''Decoder-Embedding'' (TrigPosEmbedding MODE_ADD)) k
              (?s2 @ [din (length cr1)]) = k (dpos (length cr1)) ?s3"
    by (simp only: bindB_def e sum.case prod.case)
  have dec': "\<And>k. bindB (get_decoders dn
               (Tensor (dpos (length cr1)) [Tensor emb [Tensor (din (length cr1)) []]])
               encoded h hdim a r) k ?s3 = k decoded ?s4"
    by (simp only: bindB_def 3 sum.case prod.case)
  have f': "\<And>k. bindB (new_layer ''Output'' (Dense tn ''softmax'')) k ?s4
              = k (dense (length cr1 + length cr2)) (?s4 @ [dense (length cr1 + length cr2)])"
    by (simp only: bindB_def f sum.case prod.case)
  have 5: "get_model tn ed en dn h hdim a r ew et s =
       Inr (\<lparr>inputs = [Tensor ein [], Tensor (din (length cr1)) []],
             outputs = Single (Tensor (dense (length cr1 + length cr2)) [decoded])\<rparr>,
            ?s4 @ [dense (length cr1 + length cr2)])"
    unfolding get_model_def Let_def
    by (simp only: a' b' c' enc' d' e' dec' f' bindB_unitB unitB_apply call.simps)
  show thesis
    using that [of encoded cr1 decoded cr2] 1 2 3 4 5 by simp
qed

subsection \<open>Embedding and attention layers among the created layers\<close>

lemma filter_by_sig:
  assumes "\<And>l. P l = Q (layer_sig l)"
  shows "map layer_sig (filter P cr) = filter Q (map layer_sig cr)"
  by (induction cr) (auto simp: assms)

lemma is_embedding_sig: "is_embedding l = sig_is_embedding (layer_sig l)"
  by (simp add: is_embedding_def sig_is_embedding_def layer_sig_def)

lemma is_attention_sig: "is_attention l = sig_is_attention (layer_sig l)"
  by (simp add: is_attention_def sig_is_attention_def layer_sig_def)

lemma filter_embedding_encoder_sigs [simp]:
  "filter sig_is_embedding (encoder_sigs name h hdim a r) = []"
  by (simp add: encoder_sigs_def stage_sigs_def sig_is_embedding_def)

lemma filter_embedding_decoder_sigs [simp]:
  "filter sig_is_embedding (decoder_sigs name h hdim a r) = []"
  by (simp add: decoder_sigs_def stage_sigs_def sig_is_embedding_def)

lemma filter_attention_encoder_sigs [simp]:
  "filter sig_is_attention (encoder_sigs name h hdim a r) =
     [(name @ ''-MultiHeadSelfAttention'', MultiHeadAttention h a False)]"
  by (simp add: encoder_sigs_def stage_sigs_def sig_is_attention_def)

lemma filter_attention_decoder_sigs [simp]:
  "filter sig_is_attention (decoder_sigs name h hdim a r) =
     [(name @ ''-MultiHeadSelfAttention'', MultiHeadAttention h a True),
      (name @ ''-MultiHeadQueryAttention'', MultiHeadAttention h a False)]"
  by (simp add: decoder_sigs_def stage_sigs_def sig_is_attention_def)

lemma no_embedding_in_encoders:
  assumes "map layer_sig cr = concat (map (\<lambda>i. encoder_sigs (f i) h hdim a r) js)"
  shows "filter is_embedding cr = []"
proof -
  have "map layer_sig (filter is_embedding cr) = []"
    by (simp add: filter_by_sig [of is_embedding sig_is_embedding, OF is_embedding_sig]
        assms filter_concat comp_def)
  then show ?thesis by simp
qed

lemma no_embedding_in_decoders:
  assumes "map layer_sig cr = concat (map (\<lambda>i. decoder_sigs (f i) h hdim a r) js)"
  shows "filter is_embedding cr = []"
proof -
  have "map layer_sig (filter is_embedding cr) = []"
    by (simp add: filter_by_sig [of is_embedding sig_is_embedding, OF is_embedding_sig]
        assms filter_concat comp_def)
  then show ?thesis by simp
qed

lemma attention_in_encoders:
  assumes "map layer_sig cr = concat (map (\<lambda>i. encoder_sigs (f i) h hdim a r) js)"
  shows "map layer_sig (filter is_attention cr) =
           map (\<lambda>i. (f i @ ''-MultiHeadSelfAttention'', MultiHeadAttention h a False)) js"
  by (simp add: filter_by_sig [of is_attention sig_is_attention, OF is_attention_sig]
      assms filter_concat comp_def)

lemma attention_in_decoders:
  assumes "map layer_sig cr = concat (map (\<lambda>i. decoder_sigs (f i) h hdim a r) js)"
  shows "map layer_sig (filter is_attention cr) =
           concat (map (\<lambda>i. [(f i @ ''-MultiHeadSelfAttention'', MultiHeadAttention h a True),
                               (f i @ ''-MultiHeadQueryAttention'',
                                MultiHeadAttention h a False)]) js)"
  by (simp add: filter_by_sig [of is_attention sig_is_attention, OF is_attention_sig]
      assms filter_concat comp_def)

text \<open>
  A run evaluated directly from the definitions: one encoder block, one decoder block,
  a dropout rate of \<open>1/10\<close>, a bare weight matrix and no trainable flag.
\<close>

lemma get_model_example:
  "\<exists>m s'. get_model 1000 16 1 1 4 32 ''relu'' (1 / 10) (BareWeights [[1]]) None [] = Inr (m, s') \<and>
     map lname s' =
       [''Token-Embedding'', ''Encoder-Input'', ''Encoder-Embedding'',
        ''Encoder-1-MultiHeadSelfAttention'', ''Encoder-1-MultiHeadSelfAttention-Norm'',
        ''Encoder-1-MultiHeadSelfAttention-Dropout'', ''Encoder-1-MultiHeadSelfAttention-Add'',
        ''Encoder-1-FeedForward'', ''Encoder-1-FeedForward-Norm'',
        ''Encoder-1-FeedForward-Dropout'', ''Encoder-1-FeedForward-Add'',
        ''Decoder-Input'', ''Decoder-Embedding'',
        ''Decoder-1-MultiHeadSelfAttention'', ''Decoder-1-MultiHeadSelfAttention-Norm'',
        ''Decoder-1-MultiHeadSelfAttention-Dropout'', ''Decoder-1-MultiHeadSelfAttention-Add'',
        ''Decoder-1-MultiHeadQueryAttention'', ''Decoder-1-MultiHeadQueryAttention-Norm'',
        ''Decoder-1-MultiHeadQueryAttention-Dropout'', ''Decoder-1-MultiHeadQueryAttention-Add'',
        ''Decoder-1-FeedForward'', ''Decoder-1-FeedForward-Norm'',
        ''Decoder-1-FeedForward-Dropout'', ''Decoder-1-FeedForward-Add'',
        ''Output''] \<and>
     map (\<lambda>l. (lname l, the_history_only (config l))) (filter is_attention s') =
       [(''Encoder-1-MultiHeadSelfAttention'', False),
        (''Decoder-1-MultiHeadSelfAttention'', True),
        (''Decoder-1-MultiHeadQueryAttention'', False)] \<and>
     map config (filter is_embedding s') = [Embedding 1000 16 (Some [[[1]]]) False] \<and>
     map lname (map producer (inputs m)) = [''Encoder-Input'', ''Decoder-Input'']"
  by (simp add: get_model_def get_encoders_def get_decoders_def get_encoder_component_def
      get_decoder_component_def build_simps Input_def range_py_def upto_rec1
      fmt_d_def str_nat.simps digit_char_def norm_embed_weights_def norm_embed_trainable_def
      is_attention_def is_embedding_def)

text \<open>
  Claim C3. \<^verbatim>\<open>get_model\<close> always returns, and the attention layers it creates are, in
  the order of creation: for each encoder block \<open>i = 1, \<dots>, encoder_num\<close> the
  self-attention layer with \<open>history_only = False\<close>; then for each decoder block
  \<open>i = 1, \<dots>, decoder_num\<close> first the self-attention layer with
  \<open>history_only = True\<close> and then the query (cross) attention layer with
  \<open>history_only = False\<close>. There is no other attention layer.
\<close>

theorem history_only_flags:
  "\<exists>m s'. get_model token_num embed_dim encoder_num decoder_num head_num hidden_dim activation
             dropout_rate embed_weights embed_trainable s = Inr (m, s') \<and>
     map (\<lambda>l. (lname l, the_history_only (config l))) (filter is_attention (created s s')) =
       map (\<lambda>i. (''Encoder-'' @ fmt_d i @ ''-MultiHeadSelfAttention'', False)) [1..encoder_num]
       @ concat (map (\<lambda>i. [(''Decoder-'' @ fmt_d i @ ''-MultiHeadSelfAttention'', True),
                             (''Decoder-'' @ fmt_d i @ ''-MultiHeadQueryAttention'', False)])
                   [1..decoder_num])"
proof (rule get_model_run
    [where tn = token_num and ed = embed_dim and en = encoder_num and dn = decoder_num
       and h = head_num and hdim = hidden_dim and a = activation and r = dropout_rate
       and ew = embed_weights and et = embed_trainable and s = s], goal_cases)
  case (1 encoded cr1 decoded cr2)
  let ?flag = "\<lambda>p :: string \<times> layer_config. (fst p, the_history_only (snd p))"
  have flag: "\<And>cr. map (\<lambda>l. (lname l, the_history_only (config l))) cr
                 = map ?flag (map layer_sig cr)"
    by (simp add: layer_sig_def)
  have e: "map (\<lambda>l. (lname l, the_history_only (config l))) (filter is_attention cr1) =
       map (\<lambda>i. (''Encoder-'' @ fmt_d i @ ''-MultiHeadSelfAttention'', False)) [1..encoder_num]"
    unfolding flag attention_in_encoders [OF 1(2)] by (simp add: comp_def)
  have d: "map (\<lambda>l. (lname l, the_history_only (config l))) (filter is_attention cr2) =
       concat (map (\<lambda>i. [(''Decoder-'' @ fmt_d i @ ''-MultiHeadSelfAttention'', True),
                             (''Decoder-'' @ fmt_d i @ ''-MultiHeadQueryAttention'', False)])
                   [1..decoder_num])"
    unfolding flag attention_in_decoders [OF 1(4)] by (simp add: map_concat comp_def)
  show ?case
    unfolding 1(5)
    by (simp add: is_attention_def e d)
qed

text \<open>
  Claim C4. The one embedding layer that \<^verbatim>\<open>get_model\<close> creates is trainable, when
  \<^verbatim>\<open>embed_trainable\<close> is \<^verbatim>\<open>None\<close>, exactly if \<^verbatim>\<open>embed_weights\<close> is
  \<^verbatim>\<open>None\<close>; a value of \<^verbatim>\<open>embed_trainable\<close> other than \<^verbatim>\<open>None\<close> is used as given.
\<close>

theorem embedding_trainable_default:
  "\<exists>m s'. get_model token_num embed_dim encoder_num decoder_num head_num hidden_dim activation
             dropout_rate embed_weights embed_trainable s = Inr (m, s') \<and>
     map (\<lambda>l. the_trainable (config l)) (filter is_embedding (created s s')) =
       [case embed_trainable of
          None \<Rightarrow> (embed_weights = NoWeights)
        | Some b \<Rightarrow> b]"
proof (rule get_model_run
    [where tn = token_num and ed = embed_dim and en = encoder_num and dn = decoder_num
       and h = head_num and hdim = hidden_dim and a = activation and r = dropout_rate
       and ew = embed_weights and et = embed_trainable and s = s], goal_cases)
  case (1 encoded cr1 decoded cr2)
  have "filter is_embedding cr1 = []"
    using 1(2) by (rule no_embedding_in_encoders)
  moreover have "filter is_embedding cr2 = []"
    using 1(4) by (rule no_embedding_in_decoders)
  ultimately show ?case
    unfolding 1(5)
    by (simp add: is_embedding_def norm_embed_trainable_def norm_embed_weights_def
        split: option.splits py_weights.splits)
qed

text \<open>
  Claim C10. The weights that reach the embedding constructor are \<^verbatim>\<open>None\<close> when none
  were given, the singleton list of the object when a bare object that is not a list was
  given, and the list itself when a list was given.
\<close>

theorem embedding_weights_in_list_form:
  "\<exists>m s'. get_model token_num embed_dim encoder_num decoder_num head_num hidden_dim activation
             dropout_rate embed_weights embed_trainable s = Inr (m, s') \<and>
     map (\<lambda>l. the_weights (config l)) (filter is_embedding (created s s')) =
       [case embed_weights of
          NoWeights \<Rightarrow> None
        | BareWeights w \<Rightarrow> Some [w]
        | WeightList ws \<Rightarrow> Some ws]"
proof (rule get_model_run
    [where tn = token_num and ed = embed_dim and en = encoder_num and dn = decoder_num
       and h = head_num and hdim = hidden_dim and a = activation and r = dropout_rate
       and ew = embed_weights and et = embed_trainable and s = s], goal_cases)
  case (1 encoded cr1 decoded cr2)
  have "filter is_embedding cr1 = []"
    using 1(2) by (rule no_embedding_in_encoders)
  moreover have "filter is_embedding cr2 = []"
    using 1(4) by (rule no_embedding_in_decoders)
  ultimately show ?case
    unfolding 1(5)
    by (simp add: is_embedding_def norm_embed_weights_def split: py_weights.splits)
qed

text \<open>
  Claim C6. \<^verbatim>\<open>get_model\<close> creates exactly one embedding layer object, \<open>emb\<close>. The
  encoder stack runs on the additive positional encoding of \<open>emb\<close> called on the encoder
  input, and the decoder stack runs on the additive positional encoding of the same
  object \<open>emb\<close> called on the decoder input.
\<close>

theorem shared_token_embedding:
  "\<exists>emb enc_in enc_pos encoded s2 dec_in dec_pos decoded s4 dense.
     emb = \<lparr>uid = length s, lname = ''Token-Embedding'',
             config = Embedding token_num embed_dim (norm_embed_weights embed_weights)
                        (norm_embed_trainable (norm_embed_weights embed_weights)
                           embed_trainable)\<rparr> \<and>
     layer_sig (producer enc_in) = (''Encoder-Input'', InputLayer [None]) \<and>
     layer_sig (producer dec_in) = (''Decoder-Input'', InputLayer [None]) \<and>
     layer_sig enc_pos = (''Encoder-Embedding'', TrigPosEmbedding MODE_ADD) \<and>
     layer_sig dec_pos = (''Decoder-Embedding'', TrigPosEmbedding MODE_ADD) \<and>
     get_encoders encoder_num (Tensor enc_pos [Tensor emb [enc_in]]) head_num hidden_dim
       activation dropout_rate (s @ [emb, producer enc_in, enc_pos]) = Inr (encoded, s2) \<and>
     get_decoders decoder_num (Tensor dec_pos [Tensor emb [dec_in]]) encoded head_num
       hidden_dim activation dropout_rate (s2 @ [producer dec_in, dec_pos])
       = Inr (decoded, s4) \<and>
     get_model token_num embed_dim encoder_num decoder_num head_num hidden_dim activation
       dropout_rate embed_weights embed_trainable s
       = Inr (\<lparr>inputs = [enc_in, dec_in], outputs = Single (Tensor dense [decoded])\<rparr>,
              s4 @ [dense]) \<and>
     filter is_embedding (created s (s4 @ [dense])) = [emb]"
proof (rule get_model_run
    [where tn = token_num and ed = embed_dim and en = encoder_num and dn = decoder_num
       and h = head_num and hdim = hidden_dim and a = activation and r = dropout_rate
       and ew = embed_weights and et = embed_trainable and s = s], goal_cases)
  case (1 encoded cr1 decoded cr2)
  let ?emb = "\<lparr>uid = length s, lname = ''Token-Embedding'',
             config = Embedding token_num embed_dim (norm_embed_weights embed_weights)
                        (norm_embed_trainable (norm_embed_weights embed_weights)
                           embed_trainable)\<rparr>"
  let ?ein = "\<lparr>uid = length s + 1, lname = ''Encoder-Input'', config = InputLayer [None]\<rparr>"
  let ?epos = "\<lparr>uid = length s + 2, lname = ''Encoder-Embedding'',
                 config = TrigPosEmbedding MODE_ADD\<rparr>"
  let ?din = "\<lparr>uid = length s + 3 + length cr1, lname = ''Decoder-Input'',
                config = InputLayer [None]\<rparr>"
  let ?dpos = "\<lparr>uid = length s + 4 + length cr1, lname = ''Decoder-Embedding'',
                 config = TrigPosEmbedding MODE_ADD\<rparr>"
  let ?dense = "\<lparr>uid = length s + 5 + (length cr1 + length cr2), lname = ''Output'',
                  config = Dense token_num ''softmax''\<rparr>"
  have f1: "filter is_embedding cr1 = []"
    using 1(2) by (rule no_embedding_in_encoders)
  have f2: "filter is_embedding cr2 = []"
    using 1(4) by (rule no_embedding_in_decoders)
  show ?case
    apply (rule exI [of _ ?emb], rule exI [of _ "Tensor ?ein []"], rule exI [of _ ?epos])
    apply (rule exI [of _ encoded], rule exI [of _ "s @ [?emb, ?ein, ?epos] @ cr1"])
    apply (rule exI [of _ "Tensor ?din []"], rule exI [of _ ?dpos])
    apply (rule exI [of _ decoded])
    apply (rule exI [of _ "s @ [?emb, ?ein, ?epos] @ cr1 @ [?din, ?dpos] @ cr2"])
    apply (rule exI [of _ ?dense])
    using 1(1) 1(3) 1(5) f1 f2
    apply (simp add: layer_sig_def is_embedding_def)
    done
qed

text \<open>
  Claim C7. For every configuration \<^verbatim>\<open>get_model\<close> returns a model whose inputs are the
  two input tensors named \<^verbatim>\<open>Encoder-Input\<close> and \<^verbatim>\<open>Decoder-Input\<close>, in this order,
  and whose output is the one tensor produced by the dense layer named \<^verbatim>\<open>Output\<close>,
  of width \<open>token_num\<close> and with softmax activation, called on the tensor that the run of
  the decoder stack returned just before that layer was created.
\<close>

theorem model_inputs_and_output:
  "\<exists>enc_in dec_in dense decoded dec_embed encoded s3 s4.
     get_model token_num embed_dim encoder_num decoder_num head_num hidden_dim activation
       dropout_rate embed_weights embed_trainable s
       = Inr (\<lparr>inputs = [enc_in, dec_in], outputs = Single (Tensor dense [decoded])\<rparr>,
              s4 @ [dense]) \<and>
     node_of enc_in = Node ''Encoder-Input'' (InputLayer [None]) [] \<and>
     node_of dec_in = Node ''Decoder-Input'' (InputLayer [None]) [] \<and>
     layer_sig dense = (''Output'', Dense token_num ''softmax'') \<and>
     get_decoders decoder_num dec_embed encoded head_num hidden_dim activation dropout_rate s3
       = Inr (decoded, s4)"
proof (rule get_model_run
    [where tn = token_num and ed = embed_dim and en = encoder_num and dn = decoder_num
       and h = head_num and hdim = hidden_dim and a = activation and r = dropout_rate
       and ew = embed_weights and et = embed_trainable and s = s], goal_cases)
  case (1 encoded cr1 decoded cr2)
  show ?case
    using 1(3) 1(5) by (fastforce simp: layer_sig_def)
qed

section \<open>Determinism\<close>

text \<open>
  The graph below the result of a block or of a stack, identities erased, does not depend
  on the layer objects that exist when it is built, and depends on the input tensors only
  through their graphs.
\<close>

lemma get_encoder_component_node_of:
  assumes "node_of x = node_of x'"
  shows "\<exists>out out' t t'.
           get_encoder_component name x h hdim a r s = Inr (out, t) \<and>
           get_encoder_component name x' h hdim a r s' = Inr (out', t') \<and>
           node_of out = node_of out'"
  using assms by (simp add: get_encoder_component_def build_simps)

lemma get_decoder_component_node_of:
  assumes "node_of x = node_of x'" and "node_of enc = node_of enc'"
  shows "\<exists>out out' t t'.
           get_decoder_component name x enc h hdim a r s = Inr (out, t) \<and>
           get_decoder_component name x' enc' h hdim a r s' = Inr (out', t') \<and>
           node_of out = node_of out'"
  using assms by (simp add: get_decoder_component_def build_simps)

lemma for_loop_node_of:
  assumes body: "\<And>i x x' s s'. node_of x = node_of x' \<Longrightarrow>
            \<exists>out out' t t'. body i x s = Inr (out, t) \<and> body' i x' s' = Inr (out', t') \<and>
               node_of out = node_of out'"
    and "node_of x = node_of x'"
  shows "\<exists>out out' t t'. for_loop js body x s = Inr (out, t) \<and>
            for_loop js body' x' s' = Inr (out', t') \<and> node_of out = node_of out'"
  using assms(2)
proof (induction js arbitrary: x x' s s')
  case Nil
  then show ?case by simp
next
  case (Cons j js)
  from body [OF Cons.prems, of j s s'] obtain y y' t t' where
    1: "body j x s = Inr (y, t)" "body' j x' s' = Inr (y', t')" "node_of y = node_of y'"
    by blast
  from Cons.IH [OF 1(3), of t t'] show ?case
    using 1 by (simp add: bindB_def)
qed

lemma get_encoders_node_of:
  assumes "node_of x = node_of x'"
  shows "\<exists>out out' t t'.
           get_encoders n x h hdim a r s = Inr (out, t) \<and>
           get_encoders n x' h hdim a r s' = Inr (out', t') \<and>
           node_of out = node_of out'"
  unfolding get_encoders_def
  by (rule for_loop_node_of [OF _ assms]) (rule get_encoder_component_node_of)

lemma get_decoders_node_of:
  assumes "node_of x = node_of x'" and "node_of enc = node_of enc'"
  shows "\<exists>out out' t t'.
           get_decoders n x enc h hdim a r s = Inr (out, t) \<and>
           get_decoders n x' enc' h hdim a r s' = Inr (out', t') \<and>
           node_of out = node_of out'"
  unfolding get_decoders_def
  by (rule for_loop_node_of [OF _ assms(1)])
     (rule get_decoder_component_node_of [OF _ assms(2)])

lemma get_encoders_node_of_run:
  assumes "get_encoders n x h hdim a r s = Inr (out, t)"
    and "get_encoders n x' h hdim a r s' = Inr (out', t')"
    and "node_of x = node_of x'"
  shows "node_of out = node_of out'"
  using get_encoders_node_of [OF assms(3), of n h hdim a r s s'] assms(1,2) by auto

lemma get_decoders_node_of_run:
  assumes "get_decoders n x enc h hdim a r s = Inr (out, t)"
    and "get_decoders n x' enc' h hdim a r s' = Inr (out', t')"
    and "node_of x = node_of x'" and "node_of enc = node_of enc'"
  shows "node_of out = node_of out'"
  using get_decoders_node_of [OF assms(3,4), of n h hdim a r s s'] assms(1,2) by auto

text \<open>
  Claim C8. Two calls of \<^verbatim>\<open>get_model\<close> with the same arguments, started in any two
  states \<open>s1\<close> and \<open>s2\<close>, both return; the input nodes and the graph below the output
  agree in node names, node kinds and edges, and the layers created by the two calls
  agree, one by one, in name and configuration.
\<close>

theorem get_model_deterministic:
  "\<exists>m1 t1 m2 t2.
     get_model token_num embed_dim encoder_num decoder_num head_num hidden_dim activation
       dropout_rate embed_weights embed_trainable s1 = Inr (m1, t1) \<and>
     get_model token_num embed_dim encoder_num decoder_num head_num hidden_dim activation
       dropout_rate embed_weights embed_trainable s2 = Inr (m2, t2) \<and>
     map node_of (inputs m1) = map node_of (inputs m2) \<and>
     nodes_of (outputs m1) = nodes_of (outputs m2) \<and>
     map layer_sig (created s1 t1) = map layer_sig (created s2 t2)"
proof (rule get_model_run
    [where tn = token_num and ed = embed_dim and en = encoder_num and dn = decoder_num
       and h = head_num and hdim = hidden_dim and a = activation and r = dropout_rate
       and ew = embed_weights and et = embed_trainable and s = s1], goal_cases)
  case A: (1 encoded1 cr1 decoded1 cr2)
  show ?case
  proof (rule get_model_run
    [where tn = token_num and ed = embed_dim and en = encoder_num and dn = decoder_num
       and h = head_num and hdim = hidden_dim and a = activation and r = dropout_rate
       and ew = embed_weights and et = embed_trainable and s = s2], goal_cases)
    case B: (1 encoded2 cr1' decoded2 cr2')
    have enc: "node_of encoded1 = node_of encoded2"
      by (rule get_encoders_node_of_run [OF A(1) B(1)]) simp
    have dec: "node_of decoded1 = node_of decoded2"
      by (rule get_decoders_node_of_run [OF A(3) B(3) _ enc]) simp
    show ?case
      unfolding A(5) B(5)
      by (simp add: enc dec A(2) A(4) B(2) B(4) layer_sig_def)
  qed
qed

end
